theory Spec2Isabelle
  imports Complex_Main
begin

section \<open>Data model (supabase/schema.sql)\<close>

text \<open>
  Rows of the two tables the matching flow touches.  Identifiers (uuid columns, TypeScript
  \<open>string\<close>) are strings; \<open>timestamp with time zone\<close> values are instants counted in
  milliseconds, which is what \<open>new Date(...)\<close> compares; \<open>decimal(10,2)\<close> amounts are
  exact rationals; nullable columns are options.  The bookkeeping columns \<open>created_at\<close>
  and \<open>updated_at\<close> are left out, and so is the order in which a select returns its rows.
  Of the row-level security policies, those that govern selects on \<open>bookings\<close> are
  modelled (see \<open>bookings_select_policy\<close>).  The select policies of \<open>driver_trips\<close> admit
  every query the two dashboards send, and the update policies are not modelled: a write
  reaches every row that the query names.
\<close>

type_synonym uuid = string
type_synonym timestamp = int
type_synonym money = rat

datatype booking_status = Pending | Assigned | Completed | Cancelled

datatype booking_type = Seat | Whole_car | Custom_request

datatype trip_status = Scheduled | In_progress | Trip_completed | Trip_cancelled

record booking =
  booking_id :: uuid
  customer_name :: string
  customer_phone :: string
  customer_id :: "uuid option"
  pickup_location :: string
  dropoff_location :: string
  scheduled_time :: timestamp
  status :: booking_status
  booking_type :: booking_type
  assigned_driver_id :: "uuid option"
  driver_trip_id :: "uuid option"
  seats_booked :: "int option"
  price :: "money option"
  booking_notes :: "string option"

record trip =
  trip_id :: uuid
  driver_id :: uuid
  origin :: string
  destination :: string
  departure_time :: timestamp
  available_seats :: int
  booked_seats :: int
  price_per_seat :: money
  whole_car_price :: money
  trip_status :: trip_status

text \<open>
  The remote side: the two tables, and the list of requests the browser has sent so far
  (oldest first).  A request is recorded when it is sent, whether or not it succeeds.
\<close>

datatype request =
    Select_bookings
  | Select_driver_trips
  | Select_profiles
  | Insert_driver_trips
  | Update_bookings uuid
  | Update_driver_trips uuid
  | Delete_driver_trips uuid

record world =
  bookings :: "booking list"
  driver_trips :: "trip list"
  requests :: "request list"

datatype db_error =
    Remote_failure
  | Check_violation
  | Foreign_key_violation
  | Not_null_violation
  | Unique_violation

section \<open>JavaScript coercions used by the handlers\<close>

text \<open>\<open>a || d\<close> on a nullable number: \<open>null\<close>, \<open>undefined\<close> and \<open>0\<close> are falsy.\<close>

fun js_or :: "int option \<Rightarrow> int \<Rightarrow> int" where
  "js_or None d = d"
| "js_or (Some n) d = (if n = 0 then d else n)"

text \<open>A relational comparison converts \<open>null\<close> to \<open>0\<close>.\<close>

fun js_num :: "int option \<Rightarrow> int" where
  "js_num None = 0"
| "js_num (Some n) = n"

text \<open>\<open>!x\<close> on a nullable string: \<open>null\<close> and the empty string are falsy.\<close>

fun js_truthy :: "string option \<Rightarrow> bool" where
  "js_truthy None = False"
| "js_truthy (Some s) = (s \<noteq> [])"

section \<open>The database as the client sees it\<close>

text \<open>
  The three check constraints of \<open>driver_trips\<close>:
  \<open>available_seats > 0\<close>, \<open>booked_seats >= 0\<close> and \<open>seats_check\<close>.
\<close>

definition trip_checks :: "trip \<Rightarrow> bool" where
  "trip_checks t \<longleftrightarrow>
     available_seats t > 0 \<and> booked_seats t \<ge> 0 \<and> booked_seats t \<le> available_seats t"

text \<open>\<open>bookings_driver_trip_id_fkey\<close>: a non-null \<open>driver_trip_id\<close> names a trip.\<close>

definition booking_fkey :: "trip list \<Rightarrow> booking \<Rightarrow> bool" where
  "booking_fkey ts b \<longleftrightarrow>
     (case driver_trip_id b of None \<Rightarrow> True | Some tid \<Rightarrow> tid \<in> set (map trip_id ts))"

text \<open>
  \<open>supabase.from('bookings').update(data).eq('id', rid)\<close>.  The flag says that the call
  fails for a reason outside the model (network, session, a column constraint that is
  not modelled); otherwise the data is written into every row with that id, unless a
  written row breaks the foreign key, and a call that matches no row succeeds.
  The result is the \<open>error\<close> field of the response.  The update policies are not
  modelled: an administrator passes them on every row; a driver passes them on the rows
  whose \<open>assigned_driver_id\<close> is the driver, and on another row the database would write
  nothing and report no error.
\<close>

definition update_bookings ::
  "bool \<Rightarrow> uuid \<Rightarrow> (booking \<Rightarrow> booking) \<Rightarrow> world \<Rightarrow> db_error option \<times> world" where
  "update_bookings fails rid upd w =
     (let w1 = w\<lparr>requests := requests w @ [Update_bookings rid]\<rparr>;
          written = map upd (filter (\<lambda>b. booking_id b = rid) (bookings w))
      in if fails then (Some Remote_failure, w1)
         else if \<not> list_all (booking_fkey (driver_trips w)) written
           then (Some Foreign_key_violation, w1)
         else (None, w1\<lparr>bookings := map (\<lambda>b. if booking_id b = rid then upd b else b) (bookings w)\<rparr>))"

text \<open>
  \<open>supabase.from('driver_trips').update(data).eq('id', tid)\<close>: as above, with the
  three check constraints on every written row.
\<close>

definition update_driver_trips ::
  "bool \<Rightarrow> uuid \<Rightarrow> (trip \<Rightarrow> trip) \<Rightarrow> world \<Rightarrow> db_error option \<times> world" where
  "update_driver_trips fails tid upd w =
     (let w1 = w\<lparr>requests := requests w @ [Update_driver_trips tid]\<rparr>;
          written = map upd (filter (\<lambda>t. trip_id t = tid) (driver_trips w))
      in if fails then (Some Remote_failure, w1)
         else if \<not> list_all trip_checks written then (Some Check_violation, w1)
         else (None, w1\<lparr>driver_trips := map (\<lambda>t. if trip_id t = tid then upd t else t) (driver_trips w)\<rparr>))"

text \<open>
  Who sends a query.  \<open>App.tsx\<close> mounts the admin dashboard for the role \<open>admin\<close> only and
  the driver dashboard for the role \<open>driver\<close> only, so a query of the first is sent by an
  administrator, and a query of the second by a signed-in user who is not one.
\<close>

datatype caller = As_admin | As_user uuid

text \<open>
  The select policies of \<open>bookings\<close>: "Admins can view all bookings", "Drivers can view
  assigned bookings" (\<open>assigned_driver_id = auth.uid()\<close>) and "Customers can view own
  bookings" (\<open>customer_id = auth.uid()\<close>).  A row is returned when one of them admits it.
\<close>

definition bookings_select_policy :: "caller \<Rightarrow> booking \<Rightarrow> bool" where
  "bookings_select_policy c b \<longleftrightarrow>
     (case c of
        As_admin \<Rightarrow> True
      | As_user uid \<Rightarrow> assigned_driver_id b = Some uid \<or> customer_id b = Some uid)"

text \<open>
  A select sends its request and returns \<open>data\<close>: the rows that the policies let the
  caller read and that pass the query's filters, or \<open>null\<close> when the call fails.
\<close>

definition select_bookings ::
  "bool \<Rightarrow> caller \<Rightarrow> (booking \<Rightarrow> bool) \<Rightarrow> world \<Rightarrow> booking list option \<times> world" where
  "select_bookings fails c cond w =
     (let w1 = w\<lparr>requests := requests w @ [Select_bookings]\<rparr>
      in if fails then (None, w1)
         else (Some (filter (\<lambda>b. bookings_select_policy c b \<and> cond b) (bookings w)), w1))"

definition select_driver_trips ::
  "bool \<Rightarrow> (trip \<Rightarrow> bool) \<Rightarrow> world \<Rightarrow> trip list option \<times> world" where
  "select_driver_trips fails cond w =
     (let w1 = w\<lparr>requests := requests w @ [Select_driver_trips]\<rparr>
      in if fails then (None, w1) else (Some (filter cond (driver_trips w)), w1))"

text \<open>
  \<open>supabase.from('driver_trips').insert([row])\<close>.  The server draws the id
  (\<open>uuid_generate_v4()\<close>, here \<open>new_id\<close>) and fills the defaults \<open>booked_seats = 0\<close> and
  \<open>status = 'scheduled'\<close>.  A value the client could not parse (\<open>NaN\<close>, sent as \<open>null\<close>)
  breaks \<open>not null\<close>.
\<close>

record trip_values =
  new_origin :: string
  new_destination :: string
  new_departure_time :: "timestamp option"
  new_available_seats :: "int option"
  new_price_per_seat :: "money option"
  new_whole_car_price :: "money option"

definition insert_driver_trips ::
  "bool \<Rightarrow> uuid \<Rightarrow> uuid \<Rightarrow> trip_values \<Rightarrow> world \<Rightarrow> db_error option \<times> world" where
  "insert_driver_trips fails new_id uid v w =
     (let w1 = w\<lparr>requests := requests w @ [Insert_driver_trips]\<rparr>
      in if fails then (Some Remote_failure, w1)
         else
          (case (new_departure_time v, new_available_seats v, new_price_per_seat v,
                 new_whole_car_price v) of
             (Some dep, Some seats, Some pps, Some wcp) \<Rightarrow>
               (let row = \<lparr>trip_id = new_id, driver_id = uid, origin = new_origin v,
                             destination = new_destination v, departure_time = dep,
                             available_seats = seats, booked_seats = 0, price_per_seat = pps,
                             whole_car_price = wcp, trip_status = Scheduled\<rparr>
                in if \<not> trip_checks row then (Some Check_violation, w1)
                   else if new_id \<in> set (map trip_id (driver_trips w))
                     then (Some Unique_violation, w1)
                   else (None, w1\<lparr>driver_trips := driver_trips w @ [row]\<rparr>))
           | _ \<Rightarrow> (Some Not_null_violation, w1)))"

text \<open>
  \<open>supabase.from('driver_trips').delete().eq('id', tid)\<close>; the foreign key of
  \<open>bookings\<close> is \<open>on delete set null\<close>.
\<close>

definition delete_driver_trips :: "bool \<Rightarrow> uuid \<Rightarrow> world \<Rightarrow> db_error option \<times> world" where
  "delete_driver_trips fails tid w =
     (let w1 = w\<lparr>requests := requests w @ [Delete_driver_trips tid]\<rparr>
      in if fails then (Some Remote_failure, w1)
         else (None, w1\<lparr>driver_trips := filter (\<lambda>t. trip_id t \<noteq> tid) (driver_trips w),
                          bookings := map (\<lambda>b. if driver_trip_id b = Some tid
                                                then b\<lparr>driver_trip_id := None\<rparr> else b)
                                        (bookings w)\<rparr>))"

text \<open>Which of the calls of one handler run fail for an outside reason.\<close>

record faults =
  bookings_write_fails :: bool
  trips_write_fails :: bool
  pending_select_fails :: bool
  trips_select_fails :: bool
  bookings_select_fails :: bool

text \<open>What the user sees of a handler run: a silent return, one of the alerts, or success.\<close>

datatype outcome =
    Returned
  | Alert_not_enough_seats int
  | Alert_more_than_requested "int option"
  | Alert_booking_error db_error
  | Alert_trip_error db_error
  | Done

section \<open>Driver dashboard (src/pages/DriverDashboard.tsx)\<close>

text \<open>
  The component state that the matching flow reads and writes.  The flags that only
  open and close forms (\<open>showCreateTrip\<close>, \<open>editingTrip\<close>, \<open>activeTab\<close>, \<open>isActive\<close>)
  are left out.  \<open>assignmentSeats\<close> is keyed by \<open>`${request.id}-${trip.id}`\<close>.
\<close>

record driver_state =
  assignedBookings :: "booking list"
  myTrips :: "trip list"
  pendingRequests :: "booking list"
  assigningRequest :: "uuid option"
  assignmentSeats :: "(string \<times> int) list"

definition fetchBookings :: "bool \<Rightarrow> uuid option \<Rightarrow> driver_state \<times> world \<Rightarrow> driver_state \<times> world" where
  "fetchBookings fails user sw =
     (case user of None \<Rightarrow> sw
      | Some uid \<Rightarrow>
          (let (data, w1) = select_bookings fails (As_user uid)
                 (\<lambda>b. assigned_driver_id b = Some uid \<and> status b \<noteq> Completed) (snd sw)
           in case data of None \<Rightarrow> (fst sw, w1)
              | Some rows \<Rightarrow> ((fst sw)\<lparr>assignedBookings := rows\<rparr>, w1)))"

definition fetchMyTrips :: "bool \<Rightarrow> uuid option \<Rightarrow> driver_state \<times> world \<Rightarrow> driver_state \<times> world" where
  "fetchMyTrips fails user sw =
     (case user of None \<Rightarrow> sw
      | Some uid \<Rightarrow>
          (let (data, w1) = select_driver_trips fails (\<lambda>t. driver_id t = uid) (snd sw)
           in case data of None \<Rightarrow> (fst sw, w1)
              | Some rows \<Rightarrow> ((fst sw)\<lparr>myTrips := rows\<rparr>, w1)))"

definition fetchPendingRequests :: "bool \<Rightarrow> uuid option \<Rightarrow> driver_state \<times> world \<Rightarrow> driver_state \<times> world" where
  "fetchPendingRequests fails user sw =
     (case user of None \<Rightarrow> sw
      | Some uid \<Rightarrow>
          (let (data, w1) = select_bookings fails (As_user uid)
                 (\<lambda>b. booking_type b = Custom_request \<and> status b = Pending \<and> driver_trip_id b = None)
                 (snd sw)
           in case data of None \<Rightarrow> (fst sw, w1)
              | Some rows \<Rightarrow> ((fst sw)\<lparr>pendingRequests := rows\<rparr>, w1)))"

text \<open>
  \<open>handleAssignRequest(requestId, tripId, seats)\<close>.  The request and the trip are looked
  up in the component's lists; the two updates are sent one after the other, the second
  only when the first returned no error; the three lists are fetched again after a
  success.
\<close>

definition handleAssignRequest ::
  "faults \<Rightarrow> uuid option \<Rightarrow> uuid \<Rightarrow> uuid \<Rightarrow> int \<Rightarrow> driver_state \<times> world
     \<Rightarrow> outcome \<times> driver_state \<times> world" where
  "handleAssignRequest fl user requestId tripId seats sw =
     (case user of None \<Rightarrow> (Returned, sw)
      | Some uid \<Rightarrow>
     (case find (\<lambda>r. booking_id r = requestId) (pendingRequests (fst sw)) of
        None \<Rightarrow> (Returned, sw)
      | Some request \<Rightarrow>
     (case find (\<lambda>t. trip_id t = tripId) (myTrips (fst sw)) of
        None \<Rightarrow> (Returned, sw)
      | Some trip \<Rightarrow>
     (let availableSeats = available_seats trip - booked_seats trip
      in if seats > availableSeats then (Alert_not_enough_seats availableSeats, sw)
         else if seats > js_num (seats_booked request)
           then (Alert_more_than_requested (seats_booked request), sw)
         else
           (let price = of_int seats * price_per_seat trip;
                (bookingError, w1) = update_bookings (bookings_write_fails fl) requestId
                   (\<lambda>b. b\<lparr>driver_trip_id := Some tripId, assigned_driver_id := Some uid,
                          status := Assigned, seats_booked := Some seats,
                          price := Some price\<rparr>) (snd sw)
            in case bookingError of
                 Some e \<Rightarrow> (Alert_booking_error e, fst sw, w1)
               | None \<Rightarrow>
                  (let (tripError, w2) = update_driver_trips (trips_write_fails fl) tripId
                         (\<lambda>t. t\<lparr>booked_seats := booked_seats trip + seats\<rparr>) w1
                   in case tripError of
                        Some e \<Rightarrow> (Alert_trip_error e, fst sw, w2)
                      | None \<Rightarrow>
                         (Done,
                          fetchBookings (bookings_select_fails fl) user
                            (fetchMyTrips (trips_select_fails fl) user
                              (fetchPendingRequests (pending_select_fails fl) user
                                ((fst sw)\<lparr>assigningRequest := None, assignmentSeats := []\<rparr>,
                                 w2))))))))))"

text \<open>
  The trips offered for a pending request in the "Pending Requests" tab
  (\<open>matchingTrips\<close> in the render function).
\<close>

definition matchingTrips :: "driver_state \<Rightarrow> booking \<Rightarrow> trip list" where
  "matchingTrips st request =
     filter (\<lambda>trip. trip_status trip = Scheduled \<and>
                    origin trip = pickup_location request \<and>
                    destination trip = dropoff_location request \<and>
                    available_seats trip - booked_seats trip > 0 \<and>
                    departure_time trip \<ge> scheduled_time request)
            (myTrips st)"

text \<open>\<open>handleCreateTrip\<close>: one insert, then \<open>fetchMyTrips\<close> on success.\<close>

definition handleCreateTrip ::
  "faults \<Rightarrow> uuid option \<Rightarrow> uuid \<Rightarrow> trip_values \<Rightarrow> driver_state \<times> world
     \<Rightarrow> outcome \<times> driver_state \<times> world" where
  "handleCreateTrip fl user new_id newTrip sw =
     (case user of None \<Rightarrow> (Returned, sw)
      | Some uid \<Rightarrow>
          (let (error, w1) = insert_driver_trips (trips_write_fails fl) new_id uid newTrip (snd sw)
           in case error of
                Some e \<Rightarrow> (Alert_trip_error e, fst sw, w1)
              | None \<Rightarrow> (Done, fetchMyTrips (trips_select_fails fl) user (fst sw, w1))))"

text \<open>\<open>handleUpdateTrip(tripId, updates)\<close>: \<open>updates\<close> is any object of column values.\<close>

definition handleUpdateTrip ::
  "faults \<Rightarrow> uuid option \<Rightarrow> uuid \<Rightarrow> (trip \<Rightarrow> trip) \<Rightarrow> driver_state \<times> world
     \<Rightarrow> outcome \<times> driver_state \<times> world" where
  "handleUpdateTrip fl user tripId updates sw =
     (let (error, w1) = update_driver_trips (trips_write_fails fl) tripId updates (snd sw)
      in case error of
           Some e \<Rightarrow> (Alert_trip_error e, fst sw, w1)
         | None \<Rightarrow> (Done, fetchMyTrips (trips_select_fails fl) user (fst sw, w1)))"

text \<open>\<open>handleDeleteTrip\<close>; \<open>confirmed\<close> is the answer to the confirmation dialog.\<close>

definition handleDeleteTrip ::
  "faults \<Rightarrow> uuid option \<Rightarrow> bool \<Rightarrow> uuid \<Rightarrow> driver_state \<times> world
     \<Rightarrow> outcome \<times> driver_state \<times> world" where
  "handleDeleteTrip fl user confirmed tripId sw =
     (if \<not> confirmed then (Returned, sw)
      else
       (let (error, w1) = delete_driver_trips (trips_write_fails fl) tripId (snd sw)
        in case error of
             Some e \<Rightarrow> (Alert_trip_error e, fst sw, w1)
           | None \<Rightarrow> (Done, fetchMyTrips (trips_select_fails fl) user (fst sw, w1))))"

section \<open>Admin dashboard (AdminDashboard, src/unnamed/part_001)\<close>

text \<open>
  The browser's time zone.  \<open>Date.prototype.setHours\<close> belongs to the JavaScript runtime
  and follows the clock rules of the zone, which are no part of the repository; the zone
  is therefore a parameter that gives, for an instant \<open>d\<close>, the instants that
  \<open>d.setHours(0, 0, 0, 0)\<close> and \<open>d.setHours(23, 59, 59, 999)\<close> produce.  On a day with a clock
  change the two are 23 or 25 hours apart.
\<close>

record time_zone =
  setHours_0_0_0_0 :: "timestamp \<Rightarrow> timestamp"
  setHours_23_59_59_999 :: "timestamp \<Rightarrow> timestamp"

text \<open>
  A zone that stays \<open>offset\<close> milliseconds ahead of UTC all year, such as UTC itself or
  East Africa Time.
\<close>

definition fixed_offset :: "int \<Rightarrow> time_zone" where
  "fixed_offset offset =
     \<lparr>setHours_0_0_0_0 = (\<lambda>d. ((d + offset) div 86400000) * 86400000 - offset),
      setHours_23_59_59_999 =
        (\<lambda>d. ((d + offset) div 86400000) * 86400000 - offset
               + (23 * 3600000 + 59 * 60000 + 59 * 1000 + 999))\<rparr>"

text \<open>
  The filter bar: an empty field is \<open>None\<close>.  A chosen date is given as the instant that
  \<open>new Date(filters.date)\<close> denotes, which is midnight UTC of that date.  \<open>startDate\<close> and
  \<open>endDate\<close> are the two bounds that \<open>fetchData\<close> computes from it.
\<close>

record admin_filters =
  filter_date :: "timestamp option"
  filter_driver :: "uuid option"
  filter_status :: "trip_status option"

definition startDate :: "time_zone \<Rightarrow> timestamp \<Rightarrow> timestamp" where
  "startDate tz d = setHours_0_0_0_0 tz d"

definition endDate :: "time_zone \<Rightarrow> timestamp \<Rightarrow> timestamp" where
  "endDate tz d = setHours_23_59_59_999 tz d"

text \<open>The \<open>gte\<close> and \<open>lte\<close> filters that a chosen date adds to a query.\<close>

definition in_day :: "time_zone \<Rightarrow> timestamp option \<Rightarrow> timestamp \<Rightarrow> bool" where
  "in_day tz date ts \<longleftrightarrow>
     (case date of None \<Rightarrow> True | Some d \<Rightarrow> startDate tz d \<le> ts \<and> ts \<le> endDate tz d)"

text \<open>
  The component state; \<open>allBookings\<close> is the state variable \<open>bookings\<close> of the source.
  \<open>matchingSeats\<close> is keyed by \<open>`${requestId}-${tripId}`\<close>.
\<close>

record admin_state =
  allBookings :: "booking list"
  customRequests :: "booking list"
  driverTrips :: "trip list"
  matchingRequest :: "uuid option"
  matchingSeats :: "(string \<times> int) list"
  filters :: admin_filters

text \<open>
  \<open>fetchData\<close>: the bookings query, the trips query and the drivers query, one after the
  other.  A query that returns no data leaves its part of the state as it was.
\<close>

definition fetchData ::
  "faults \<Rightarrow> time_zone \<Rightarrow> admin_state \<times> world \<Rightarrow> admin_state \<times> world" where
  "fetchData fl tz sw =
     (let st = fst sw;
          (bookingsData, w1) = select_bookings (bookings_select_fails fl) As_admin
             (\<lambda>b. in_day tz (filter_date (filters st)) (scheduled_time b)) (snd sw);
          st1 = (case bookingsData of None \<Rightarrow> st
                 | Some rows \<Rightarrow>
                     st\<lparr>allBookings := rows,
                        customRequests :=
                          filter (\<lambda>b. booking_type b = Custom_request \<and> status b = Pending \<and>
                                       \<not> js_truthy (driver_trip_id b)) rows\<rparr>);
          (tripsData, w2) = select_driver_trips (trips_select_fails fl)
             (\<lambda>t. (case filter_driver (filters st) of None \<Rightarrow> True | Some d \<Rightarrow> driver_id t = d) \<and>
                   (case filter_status (filters st) of None \<Rightarrow> True | Some s \<Rightarrow> trip_status t = s) \<and>
                   in_day tz (filter_date (filters st)) (departure_time t)) w1;
          st2 = (case tripsData of None \<Rightarrow> st1 | Some rows \<Rightarrow> st1\<lparr>driverTrips := rows\<rparr>)
      in (st2, w2\<lparr>requests := requests w2 @ [Select_profiles]\<rparr>))"

text \<open>
  The constant \<open>seats\<close> of \<open>handleMatchRequest\<close>: the argument, else the number typed for
  this pair, else what the customer asked for, else 1.
\<close>

definition matchSeats :: "admin_state \<Rightarrow> uuid \<Rightarrow> uuid \<Rightarrow> int option \<Rightarrow> booking \<Rightarrow> int" where
  "matchSeats st requestId tripId seatsToAssign request =
     js_or seatsToAssign
       (js_or (map_of (matchingSeats st) (requestId @ ''-'' @ tripId))
          (js_or (seats_booked request) 1))"

text \<open>\<open>handleMatchRequest(requestId, tripId, seatsToAssign?)\<close>.\<close>

definition handleMatchRequest ::
  "faults \<Rightarrow> time_zone \<Rightarrow> uuid \<Rightarrow> uuid \<Rightarrow> int option \<Rightarrow> admin_state \<times> world
     \<Rightarrow> outcome \<times> admin_state \<times> world" where
  "handleMatchRequest fl tz requestId tripId seatsToAssign sw =
     (case find (\<lambda>r. booking_id r = requestId) (customRequests (fst sw)) of
        None \<Rightarrow> (Returned, sw)
      | Some request \<Rightarrow>
     (case find (\<lambda>t. trip_id t = tripId) (driverTrips (fst sw)) of
        None \<Rightarrow> (Returned, sw)
      | Some trip \<Rightarrow>
     (let availableSeats = available_seats trip - booked_seats trip;
          seats = matchSeats (fst sw) requestId tripId seatsToAssign request
      in if seats > availableSeats then (Alert_not_enough_seats availableSeats, sw)
         else if seats > js_num (seats_booked request)
           then (Alert_more_than_requested (seats_booked request), sw)
         else
           (let (bookingError, w1) = update_bookings (bookings_write_fails fl) requestId
                   (\<lambda>b. b\<lparr>driver_trip_id := Some tripId,
                          assigned_driver_id := Some (driver_id trip),
                          status := Assigned, seats_booked := Some seats,
                          price := Some (of_int seats * price_per_seat trip)\<rparr>) (snd sw)
            in case bookingError of
                 Some e \<Rightarrow> (Alert_booking_error e, fst sw, w1)
               | None \<Rightarrow>
                  (let newBookedSeats = booked_seats trip + seats;
                       (tripError, w2) = update_driver_trips (trips_write_fails fl) tripId
                         (\<lambda>t. t\<lparr>booked_seats := newBookedSeats\<rparr>) w1
                   in case tripError of
                        Some e \<Rightarrow> (Alert_trip_error e, fst sw, w2)
                      | None \<Rightarrow>
                         (Done,
                          fetchData fl tz
                            ((fst sw)\<lparr>matchingRequest := None, matchingSeats := []\<rparr>,
                             w2)))))))"

text \<open>The trips listed under "Match with Available Trip" for a request.\<close>

definition matchWithTrips :: "admin_state \<Rightarrow> booking \<Rightarrow> trip list" where
  "matchWithTrips st request =
     filter (\<lambda>t. trip_status t = Scheduled \<and> departure_time t \<ge> scheduled_time request)
            (driverTrips st)"

text \<open>\<open>handleUpdateTripPrice(tripId, field, value)\<close>.\<close>

datatype price_field = Price_per_seat | Whole_car_price

definition handleUpdateTripPrice ::
  "faults \<Rightarrow> time_zone \<Rightarrow> uuid \<Rightarrow> price_field \<Rightarrow> money \<Rightarrow> admin_state \<times> world
     \<Rightarrow> outcome \<times> admin_state \<times> world" where
  "handleUpdateTripPrice fl tz tripId field val sw =
     (let (error, w1) = update_driver_trips (trips_write_fails fl) tripId
            (\<lambda>t. case field of Price_per_seat \<Rightarrow> t\<lparr>price_per_seat := val\<rparr>
                              | Whole_car_price \<Rightarrow> t\<lparr>whole_car_price := val\<rparr>) (snd sw)
      in case error of
           Some e \<Rightarrow> (Alert_trip_error e, fst sw, w1)
         | None \<Rightarrow> (Done, fetchData fl tz (fst sw, w1)))"

section \<open>Reading one row\<close>

text \<open>The row of a table with a given primary key, if there is one.\<close>

definition booking_row :: "world \<Rightarrow> uuid \<Rightarrow> booking option" where
  "booking_row w rid = find (\<lambda>b. booking_id b = rid) (bookings w)"

definition trip_row :: "world \<Rightarrow> uuid \<Rightarrow> trip option" where
  "trip_row w tid = find (\<lambda>t. trip_id t = tid) (driver_trips w)"

section \<open>Example data\<close>

definition request1 :: booking where
  "request1 = \<lparr>booking_id = ''r1'', customer_name = ''Hanna'', customer_phone = ''0911000000'',
     customer_id = Some ''c1'', pickup_location = ''Addis Ababa'', dropoff_location = ''Hawassa'',
     scheduled_time = 1000, status = Pending, booking_type = Custom_request,
     assigned_driver_id = None, driver_trip_id = None, seats_booked = Some 2,
     price = None, booking_notes = None\<rparr>"

definition trip1 :: trip where
  "trip1 = \<lparr>trip_id = ''t1'', driver_id = ''d1'', origin = ''Addis Ababa'',
     destination = ''Hawassa'', departure_time = 2000, available_seats = 4, booked_seats = 0,
     price_per_seat = 150, whole_car_price = 500, trip_status = Scheduled\<rparr>"

text \<open>A trip of the same driver on another route.\<close>

definition trip2 :: trip where
  "trip2 = \<lparr>trip_id = ''t2'', driver_id = ''d1'', origin = ''Adama'',
     destination = ''Bahir Dar'', departure_time = 3000, available_seats = 3, booked_seats = 0,
     price_per_seat = 400, whole_car_price = 1000, trip_status = Scheduled\<rparr>"

definition world1 :: world where
  "world1 = \<lparr>bookings = [request1], driver_trips = [trip1, trip2], requests = []\<rparr>"

definition driver1 :: driver_state where
  "driver1 = \<lparr>assignedBookings = [], myTrips = [trip1, trip2], pendingRequests = [request1],
     assigningRequest = Some ''r1'', assignmentSeats = []\<rparr>"

definition no_filters :: admin_filters where
  "no_filters = \<lparr>filter_date = None, filter_driver = None, filter_status = None\<rparr>"

definition admin1 :: admin_state where
  "admin1 = \<lparr>allBookings = [request1], customRequests = [request1],
     driverTrips = [trip1, trip2], matchingRequest = Some ''r1'', matchingSeats = [],
     filters = no_filters\<rparr>"

definition no_faults :: faults where
  "no_faults = \<lparr>bookings_write_fails = False, trips_write_fails = False,
     pending_select_fails = False, trips_select_fails = False, bookings_select_fails = False\<rparr>"

text \<open>Runs in which one call fails for an outside reason.\<close>

definition trip_write_fails :: faults where
  "trip_write_fails = no_faults\<lparr>trips_write_fails := True\<rparr>"

definition pending_refetch_fails :: faults where
  "pending_refetch_fails = no_faults\<lparr>pending_select_fails := True\<rparr>"

definition bookings_refetch_fails :: faults where
  "bookings_refetch_fails = no_faults\<lparr>bookings_select_fails := True\<rparr>"

text \<open>
  The admin dashboard with the filter bar set to 2 January 1970, in a browser on UTC and
  in one five hours behind it.
\<close>

definition admin_day2 :: admin_state where
  "admin_day2 = admin1\<lparr>filters := no_filters\<lparr>filter_date := Some 86400000\<rparr>\<rparr>"

definition utc :: time_zone where
  "utc = fixed_offset 0"


text \<open>
  Two more pending custom requests without a trip: one that already carries driver
  \<open>d1\<close> in \<open>assigned_driver_id\<close>, and one of another customer for noon of 2 January 1970
  in the zone five hours behind UTC.
\<close>

definition request2 :: booking where
  "request2 = request1\<lparr>booking_id := ''r2'', assigned_driver_id := Some ''d1''\<rparr>"

definition request3 :: booking where
  "request3 = request1\<lparr>booking_id := ''r3'', customer_id := Some ''c2'',
     scheduled_time := 86400000 + 17 * 3600000\<rparr>"

definition world2 :: world where
  "world2 = \<lparr>bookings = [request1, request2, request3], driver_trips = [trip1, trip2],
     requests = []\<rparr>"

section \<open>The seat invariant\<close>

text \<open>
  Every row of \<open>driver_trips\<close> has \<open>available_seats > 0\<close> and
  \<open>0 \<le> booked_seats \<le> available_seats\<close>.
\<close>

definition seats_invariant :: "world \<Rightarrow> bool" where
  "seats_invariant w \<longleftrightarrow>
     list_all (\<lambda>t. 0 \<le> booked_seats t \<and> booked_seats t \<le> available_seats t \<and>
                   available_seats t > 0) (driver_trips w)"

section \<open>Properties of the matching flow\<close>

lemma find_map_update:
  assumes "\<And>x. key (f x) = key x"
  shows "find (\<lambda>x. key x = k) (map (\<lambda>x. if key x = k then f x else x) xs)
         = map_option f (find (\<lambda>x. key x = k) xs)"
  using assms by (induction xs) auto

lemma fetchBookings_world:
  "bookings (snd (fetchBookings f u sw)) = bookings (snd sw)"
  "driver_trips (snd (fetchBookings f u sw)) = driver_trips (snd sw)"
  "requests (snd (fetchBookings f u sw)) = requests (snd sw) @ (case u of None \<Rightarrow> [] | Some _ \<Rightarrow> [Select_bookings])"
  by (auto simp: fetchBookings_def select_bookings_def Let_def split: option.splits)

lemma fetchMyTrips_world:
  "bookings (snd (fetchMyTrips f u sw)) = bookings (snd sw)"
  "driver_trips (snd (fetchMyTrips f u sw)) = driver_trips (snd sw)"
  "requests (snd (fetchMyTrips f u sw)) = requests (snd sw) @ (case u of None \<Rightarrow> [] | Some _ \<Rightarrow> [Select_driver_trips])"
  by (auto simp: fetchMyTrips_def select_driver_trips_def Let_def split: option.splits)

lemma fetchPendingRequests_world:
  "bookings (snd (fetchPendingRequests f u sw)) = bookings (snd sw)"
  "driver_trips (snd (fetchPendingRequests f u sw)) = driver_trips (snd sw)"
  "requests (snd (fetchPendingRequests f u sw)) = requests (snd sw) @ (case u of None \<Rightarrow> [] | Some _ \<Rightarrow> [Select_bookings])"
  by (auto simp: fetchPendingRequests_def select_bookings_def Let_def split: option.splits)

lemma fetchData_world:
  "bookings (snd (fetchData fl tz sw)) = bookings (snd sw)"
  "driver_trips (snd (fetchData fl tz sw)) = driver_trips (snd sw)"
  "requests (snd (fetchData fl tz sw)) = requests (snd sw) @ [Select_bookings, Select_driver_trips, Select_profiles]"
  by (auto simp: fetchData_def select_bookings_def select_driver_trips_def Let_def split: option.splits prod.splits)


text \<open>What a run of the driver's handler does once both lookups and both guards pass.\<close>

lemma handleAssignRequest_written:
  fixes fl uid rid tid seats st w
  defines "R \<equiv> handleAssignRequest fl (Some uid) rid tid seats (st, w)"
  assumes req: "find (\<lambda>r. booking_id r = rid) (pendingRequests st) = Some request"
    and trp: "find (\<lambda>t. trip_id t = tid) (myTrips st) = Some trip"
    and out: "fst R = Done \<or> (\<exists>e. fst R = Alert_trip_error e)"
  shows "bookings (snd (snd R)) = map (\<lambda>b. if booking_id b = rid
            then b\<lparr>driver_trip_id := Some tid, assigned_driver_id := Some uid,
                   status := Assigned, seats_booked := Some seats,
                   price := Some (of_int seats * price_per_seat trip)\<rparr> else b) (bookings w)"
    and "fst R = Done \<Longrightarrow> driver_trips (snd (snd R)) = map (\<lambda>t. if trip_id t = tid
            then t\<lparr>booked_seats := booked_seats trip + seats\<rparr> else t) (driver_trips w)"
    and "fst R \<noteq> Done \<Longrightarrow> driver_trips (snd (snd R)) = driver_trips w"
    and "\<not> seats > available_seats trip - booked_seats trip"
    and "\<not> seats > js_num (seats_booked request)"
    and "\<not> bookings_write_fails fl"
  using req trp out unfolding R_def
  by (auto simp: handleAssignRequest_def Let_def update_bookings_def update_driver_trips_def
        fetchBookings_world fetchMyTrips_world fetchPendingRequests_world
      split: if_splits option.splits prod.splits)

lemma handleMatchRequest_written:
  fixes fl tz rid tid seatsToAssign st w
  defines "R \<equiv> handleMatchRequest fl tz rid tid seatsToAssign (st, w)"
  assumes req: "find (\<lambda>r. booking_id r = rid) (customRequests st) = Some request"
    and trp: "find (\<lambda>t. trip_id t = tid) (driverTrips st) = Some trip"
    and out: "fst R = Done \<or> (\<exists>e. fst R = Alert_trip_error e)"
  defines "seats \<equiv> matchSeats st rid tid seatsToAssign request"
  shows "bookings (snd (snd R)) = map (\<lambda>b. if booking_id b = rid
            then b\<lparr>driver_trip_id := Some tid, assigned_driver_id := Some (driver_id trip),
                   status := Assigned, seats_booked := Some seats,
                   price := Some (of_int seats * price_per_seat trip)\<rparr> else b) (bookings w)"
    and "fst R = Done \<Longrightarrow> driver_trips (snd (snd R)) = map (\<lambda>t. if trip_id t = tid
            then t\<lparr>booked_seats := booked_seats trip + seats\<rparr> else t) (driver_trips w)"
    and "fst R \<noteq> Done \<Longrightarrow> driver_trips (snd (snd R)) = driver_trips w"
    and "\<not> seats > available_seats trip - booked_seats trip"
    and "\<not> seats > js_num (seats_booked request)"
    and "\<not> bookings_write_fails fl"
  using req trp out unfolding R_def seats_def
  by (auto simp: handleMatchRequest_def Let_def update_bookings_def update_driver_trips_def
        fetchData_world
      split: if_splits option.splits prod.splits)


lemmas remote_defs = update_bookings_def update_driver_trips_def select_bookings_def
  bookings_select_policy_def
  select_driver_trips_def insert_driver_trips_def delete_driver_trips_def trip_checks_def
  booking_fkey_def

lemmas client_defs = handleAssignRequest_def handleMatchRequest_def fetchBookings_def
  fetchMyTrips_def fetchPendingRequests_def fetchData_def matchSeats_def in_day_def
  booking_row_def trip_row_def

lemmas example_defs = request1_def trip1_def trip2_def world1_def driver1_def admin1_def
  no_filters_def no_faults_def trip_write_fails_def pending_refetch_fails_def
  bookings_refetch_fails_def admin_day2_def request2_def request3_def world2_def

lemma driver_run1:
  "handleAssignRequest no_faults (Some ''d1'') ''r1'' ''t1'' 2 (driver1, world1) =
     (Done,
      \<lparr>assignedBookings = [request1\<lparr>driver_trip_id := Some ''t1'', assigned_driver_id := Some ''d1'',
           status := Assigned, seats_booked := Some 2, price := Some 300\<rparr>],
       myTrips = [trip1\<lparr>booked_seats := 2\<rparr>, trip2], pendingRequests = [],
       assigningRequest = None, assignmentSeats = []\<rparr>,
      \<lparr>bookings = [request1\<lparr>driver_trip_id := Some ''t1'', assigned_driver_id := Some ''d1'',
           status := Assigned, seats_booked := Some 2, price := Some 300\<rparr>],
       driver_trips = [trip1\<lparr>booked_seats := 2\<rparr>, trip2],
       requests = [Update_bookings ''r1'', Update_driver_trips ''t1'', Select_bookings,
                   Select_driver_trips, Select_bookings]\<rparr>)"
  by (simp add: remote_defs client_defs example_defs Let_def)

lemma admin_run1:
  "handleMatchRequest no_faults tz ''r1'' ''t1'' (Some 2) (admin1, world1) =
     (Done,
      \<lparr>allBookings = [request1\<lparr>driver_trip_id := Some ''t1'', assigned_driver_id := Some ''d1'',
           status := Assigned, seats_booked := Some 2, price := Some 300\<rparr>],
       customRequests = [], driverTrips = [trip1\<lparr>booked_seats := 2\<rparr>, trip2],
       matchingRequest = None, matchingSeats = [], filters = no_filters\<rparr>,
      \<lparr>bookings = [request1\<lparr>driver_trip_id := Some ''t1'', assigned_driver_id := Some ''d1'',
           status := Assigned, seats_booked := Some 2, price := Some 300\<rparr>],
       driver_trips = [trip1\<lparr>booked_seats := 2\<rparr>, trip2],
       requests = [Update_bookings ''r1'', Update_driver_trips ''t1'', Select_bookings,
                   Select_driver_trips, Select_profiles]\<rparr>)"
  by (simp add: remote_defs client_defs example_defs Let_def)



lemma fetchMyTrips_own:
  "\<forall>t\<in>set (myTrips st). driver_id t = uid \<Longrightarrow>
   \<forall>t\<in>set (myTrips (fst (fetchMyTrips fails (Some uid) (st, w)))). driver_id t = uid"
  by (auto simp: fetchMyTrips_def select_driver_trips_def Let_def)



text \<open>
  Claim C4.  A fully successful match rewrites the trip row in \<open>booked_seats\<close> only: the
  new value is the \<open>booked_seats\<close> of the component's copy of the trip plus the seat
  count, every other column keeps its value, and the remaining seats are those computed
  from the copy less the seat count.  When the copy is up to date this is an increment of
  the row by exactly the seat count.
\<close>
theorem matched_trip_row:
  "(find (\<lambda>r. booking_id r = rid) (pendingRequests st) = Some request \<longrightarrow>
    find (\<lambda>t. trip_id t = tid) (myTrips st) = Some trip \<longrightarrow>
    handleAssignRequest fl (Some uid) rid tid seats (st, w) = (Done, st', w') \<longrightarrow>
    trip_row w tid = Some t \<longrightarrow>
    (\<exists>t'. trip_row w' tid = Some t' \<and>
          t' = t\<lparr>booked_seats := booked_seats trip + seats\<rparr> \<and>
          available_seats t' = available_seats t \<and> price_per_seat t' = price_per_seat t \<and>
          whole_car_price t' = whole_car_price t \<and> origin t' = origin t \<and>
          destination t' = destination t \<and> departure_time t' = departure_time t \<and>
          trip_status t' = trip_status t \<and>
          available_seats t' - booked_seats t'
            = (available_seats t - booked_seats trip) - seats \<and>
          (booked_seats trip = booked_seats t \<longrightarrow>
             booked_seats t' = booked_seats t + seats \<and>
             available_seats t' - booked_seats t'
               = (available_seats t - booked_seats t) - seats)))
   \<and>
   (find (\<lambda>r. booking_id r = rid) (customRequests ast) = Some request \<longrightarrow>
    find (\<lambda>t. trip_id t = tid) (driverTrips ast) = Some trip \<longrightarrow>
    handleMatchRequest fl tz rid tid seatsToAssign (ast, w) = (Done, ast', w') \<longrightarrow>
    trip_row w tid = Some t \<longrightarrow>
    (\<exists>t'. trip_row w' tid = Some t' \<and>
          t' = t\<lparr>booked_seats := booked_seats trip
                    + matchSeats ast rid tid seatsToAssign request\<rparr> \<and>
          available_seats t' = available_seats t \<and> price_per_seat t' = price_per_seat t \<and>
          whole_car_price t' = whole_car_price t \<and> origin t' = origin t \<and>
          destination t' = destination t \<and> departure_time t' = departure_time t \<and>
          trip_status t' = trip_status t \<and>
          available_seats t' - booked_seats t'
            = (available_seats t - booked_seats trip)
                - matchSeats ast rid tid seatsToAssign request \<and>
          (booked_seats trip = booked_seats t \<longrightarrow>
             booked_seats t' = booked_seats t + matchSeats ast rid tid seatsToAssign request \<and>
             available_seats t' - booked_seats t'
               = (available_seats t - booked_seats t)
                   - matchSeats ast rid tid seatsToAssign request)))"
proof (intro conjI impI)
  assume req: "find (\<lambda>r. booking_id r = rid) (pendingRequests st) = Some request"
    and trp: "find (\<lambda>t. trip_id t = tid) (myTrips st) = Some trip"
    and run: "handleAssignRequest fl (Some uid) rid tid seats (st, w) = (Done, st', w')"
    and row: "trip_row w tid = Some t"
  from handleAssignRequest_written(2) [OF req trp, of fl uid seats w] run
  have "driver_trips w' = map (\<lambda>t. if trip_id t = tid
            then t\<lparr>booked_seats := booked_seats trip + seats\<rparr> else t) (driver_trips w)"
    by simp
  then have "trip_row w' tid = Some (t\<lparr>booked_seats := booked_seats trip + seats\<rparr>)"
    using row by (simp add: trip_row_def find_map_update [where key = trip_id])
  then show "\<exists>t'. trip_row w' tid = Some t' \<and>
          t' = t\<lparr>booked_seats := booked_seats trip + seats\<rparr> \<and>
          available_seats t' = available_seats t \<and> price_per_seat t' = price_per_seat t \<and>
          whole_car_price t' = whole_car_price t \<and> origin t' = origin t \<and>
          destination t' = destination t \<and> departure_time t' = departure_time t \<and>
          trip_status t' = trip_status t \<and>
          available_seats t' - booked_seats t'
            = (available_seats t - booked_seats trip) - seats \<and>
          (booked_seats trip = booked_seats t \<longrightarrow>
             booked_seats t' = booked_seats t + seats \<and>
             available_seats t' - booked_seats t'
               = (available_seats t - booked_seats t) - seats)"
    by simp
next
  assume req: "find (\<lambda>r. booking_id r = rid) (customRequests ast) = Some request"
    and trp: "find (\<lambda>t. trip_id t = tid) (driverTrips ast) = Some trip"
    and run: "handleMatchRequest fl tz rid tid seatsToAssign (ast, w) = (Done, ast', w')"
    and row: "trip_row w tid = Some t"
  let ?s = "matchSeats ast rid tid seatsToAssign request"
  from handleMatchRequest_written(2) [OF req trp, of fl tz seatsToAssign w] run
  have "driver_trips w' = map (\<lambda>t. if trip_id t = tid
            then t\<lparr>booked_seats := booked_seats trip + ?s\<rparr> else t) (driver_trips w)"
    by simp
  then have "trip_row w' tid = Some (t\<lparr>booked_seats := booked_seats trip + ?s\<rparr>)"
    using row by (simp add: trip_row_def find_map_update [where key = trip_id])
  then show "\<exists>t'. trip_row w' tid = Some t' \<and>
          t' = t\<lparr>booked_seats := booked_seats trip + ?s\<rparr> \<and>
          available_seats t' = available_seats t \<and> price_per_seat t' = price_per_seat t \<and>
          whole_car_price t' = whole_car_price t \<and> origin t' = origin t \<and>
          destination t' = destination t \<and> departure_time t' = departure_time t \<and>
          trip_status t' = trip_status t \<and>
          available_seats t' - booked_seats t'
            = (available_seats t - booked_seats trip) - ?s \<and>
          (booked_seats trip = booked_seats t \<longrightarrow>
             booked_seats t' = booked_seats t + ?s \<and>
             available_seats t' - booked_seats t'
               = (available_seats t - booked_seats t) - ?s)"
    by simp
qed

text \<open>The first example trip goes from 0 to 2 booked seats.\<close>
theorem matched_trip_row_witness:
  "trip_row (snd (snd (handleAssignRequest no_faults (Some ''d1'') ''r1'' ''t1'' 2
        (driver1, world1)))) ''t1'' = Some (trip1\<lparr>booked_seats := 0 + 2\<rparr>)
   \<and> trip_row (snd (snd (handleMatchRequest no_faults utc ''r1'' ''t1'' (Some 2)
        (admin1, world1)))) ''t1'' = Some (trip1\<lparr>booked_seats := 0 + 2\<rparr>)"
proof -
  let ?D = "handleAssignRequest no_faults (Some ''d1'') ''r1'' ''t1'' 2 (driver1, world1)"
  let ?A = "handleMatchRequest no_faults utc ''r1'' ''t1'' (Some 2) (admin1, world1)"
  have d: "trip_row (snd (snd ?D)) ''t1'' = Some (trip1\<lparr>booked_seats := 0 + 2\<rparr>)"
    using matched_trip_row [THEN conjunct1, of "''r1''" driver1 request1 "''t1''" trip1
        no_faults "''d1''" 2 world1 "fst (snd ?D)" "snd (snd ?D)" trip1]
    by (simp add: driver_run1) (simp add: example_defs client_defs)
  have a: "trip_row (snd (snd ?A)) ''t1'' = Some (trip1\<lparr>booked_seats := 0 + 2\<rparr>)"
    using matched_trip_row [THEN conjunct2, of "''r1''" admin1 request1 "''t1''" trip1
        no_faults utc "Some 2" world1 "fst (snd ?A)" "snd (snd ?A)" trip1]
    by (simp add: admin_run1) (simp add: example_defs client_defs)
  from d a show ?thesis by simp
qed

text \<open>
  Claim C8.  When the seat count exceeds the remaining seats of the trip or the seats
  the customer asked for, the handler alerts and returns: the component state and the
  remote side, request list included, are what they were.
\<close>
theorem guards_block_all_writes:
  "(find (\<lambda>r. booking_id r = rid) (pendingRequests st) = Some request \<longrightarrow>
    find (\<lambda>t. trip_id t = tid) (myTrips st) = Some trip \<longrightarrow>
    (seats > available_seats trip - booked_seats trip \<or> seats > js_num (seats_booked request)) \<longrightarrow>
    snd (handleAssignRequest fl user rid tid seats (st, w)) = (st, w) \<and>
    fst (handleAssignRequest fl user rid tid seats (st, w))
      \<in> {Returned, Alert_not_enough_seats (available_seats trip - booked_seats trip),
         Alert_more_than_requested (seats_booked request)})
   \<and>
   (find (\<lambda>r. booking_id r = rid) (customRequests ast) = Some request \<longrightarrow>
    find (\<lambda>t. trip_id t = tid) (driverTrips ast) = Some trip \<longrightarrow>
    (matchSeats ast rid tid seatsToAssign request > available_seats trip - booked_seats trip \<or>
     matchSeats ast rid tid seatsToAssign request > js_num (seats_booked request)) \<longrightarrow>
    snd (handleMatchRequest fl tz rid tid seatsToAssign (ast, w)) = (ast, w) \<and>
    fst (handleMatchRequest fl tz rid tid seatsToAssign (ast, w))
      \<in> {Alert_not_enough_seats (available_seats trip - booked_seats trip),
         Alert_more_than_requested (seats_booked request)})"
proof (intro conjI impI)
  assume req: "find (\<lambda>r. booking_id r = rid) (pendingRequests st) = Some request"
    and trp: "find (\<lambda>t. trip_id t = tid) (myTrips st) = Some trip"
    and guard: "seats > available_seats trip - booked_seats trip \<or>
                seats > js_num (seats_booked request)"
  show "snd (handleAssignRequest fl user rid tid seats (st, w)) = (st, w)"
  proof (cases user)
    case None
    then show ?thesis by (simp add: handleAssignRequest_def)
  next
    case (Some uid)
    with req trp guard show ?thesis
      by (auto simp: handleAssignRequest_def Let_def)
  qed
  show "fst (handleAssignRequest fl user rid tid seats (st, w))
      \<in> {Returned, Alert_not_enough_seats (available_seats trip - booked_seats trip),
         Alert_more_than_requested (seats_booked request)}"
  proof (cases user)
    case None
    then show ?thesis by (simp add: handleAssignRequest_def)
  next
    case (Some uid)
    with req trp guard show ?thesis
      by (auto simp: handleAssignRequest_def Let_def)
  qed
next
  assume req: "find (\<lambda>r. booking_id r = rid) (customRequests ast) = Some request"
    and trp: "find (\<lambda>t. trip_id t = tid) (driverTrips ast) = Some trip"
    and guard: "matchSeats ast rid tid seatsToAssign request
                  > available_seats trip - booked_seats trip \<or>
                matchSeats ast rid tid seatsToAssign request > js_num (seats_booked request)"
  from req trp guard
  show "snd (handleMatchRequest fl tz rid tid seatsToAssign (ast, w)) = (ast, w)"
    by (auto simp: handleMatchRequest_def Let_def)
  from req trp guard
  show "fst (handleMatchRequest fl tz rid tid seatsToAssign (ast, w))
      \<in> {Alert_not_enough_seats (available_seats trip - booked_seats trip),
         Alert_more_than_requested (seats_booked request)}"
    by (auto simp: handleMatchRequest_def Let_def)
qed

text \<open>Five seats on a trip with four left, and three seats for a request of two.\<close>
theorem guards_block_all_writes_witness:
  "handleAssignRequest no_faults (Some ''d1'') ''r1'' ''t1'' 5 (driver1, world1)
     = (Alert_not_enough_seats 4, driver1, world1)
   \<and> handleAssignRequest no_faults (Some ''d1'') ''r1'' ''t1'' 3 (driver1, world1)
     = (Alert_more_than_requested (Some 2), driver1, world1)
   \<and> handleMatchRequest no_faults utc ''r1'' ''t1'' (Some 5) (admin1, world1)
     = (Alert_not_enough_seats 4, admin1, world1)
   \<and> handleMatchRequest no_faults utc ''r1'' ''t1'' (Some 3) (admin1, world1)
     = (Alert_more_than_requested (Some 2), admin1, world1)"
proof -
  note d = guards_block_all_writes [THEN conjunct1, of "''r1''" driver1 request1 "''t1''" trip1 _
      no_faults "Some ''d1''" world1]
  note a = guards_block_all_writes [THEN conjunct2, of "''r1''" admin1 request1 "''t1''" trip1 _
      no_faults utc world1]
  have f: "find (\<lambda>r. booking_id r = ''r1'') (pendingRequests driver1) = Some request1"
      "find (\<lambda>t. trip_id t = ''t1'') (myTrips driver1) = Some trip1"
      "find (\<lambda>r. booking_id r = ''r1'') (customRequests admin1) = Some request1"
      "find (\<lambda>t. trip_id t = ''t1'') (driverTrips admin1) = Some trip1"
    by (simp_all add: example_defs)
  have "snd (handleAssignRequest no_faults (Some ''d1'') ''r1'' ''t1'' 5 (driver1, world1))
          = (driver1, world1)"
    using d [of 5] f by (simp add: trip1_def)
  moreover have "snd (handleAssignRequest no_faults (Some ''d1'') ''r1'' ''t1'' 3 (driver1, world1))
          = (driver1, world1)"
    using d [of 3] f by (simp add: trip1_def request1_def)
  moreover have "snd (handleMatchRequest no_faults utc ''r1'' ''t1'' (Some 5) (admin1, world1))
          = (admin1, world1)"
    using a [of "Some 5"] f by (simp add: trip1_def matchSeats_def)
  moreover have "snd (handleMatchRequest no_faults utc ''r1'' ''t1'' (Some 3) (admin1, world1))
          = (admin1, world1)"
    using a [of "Some 3"] f by (simp add: trip1_def request1_def matchSeats_def)
  moreover have "fst (handleAssignRequest no_faults (Some ''d1'') ''r1'' ''t1'' 5 (driver1, world1))
          = Alert_not_enough_seats 4"
      "fst (handleAssignRequest no_faults (Some ''d1'') ''r1'' ''t1'' 3 (driver1, world1))
          = Alert_more_than_requested (Some 2)"
      "fst (handleMatchRequest no_faults utc ''r1'' ''t1'' (Some 5) (admin1, world1))
          = Alert_not_enough_seats 4"
      "fst (handleMatchRequest no_faults utc ''r1'' ''t1'' (Some 3) (admin1, world1))
          = Alert_more_than_requested (Some 2)"
    by (simp_all add: handleAssignRequest_def handleMatchRequest_def matchSeats_def Let_def
          example_defs)
  ultimately show ?thesis by (simp add: prod_eq_iff)
qed

text \<open>
  Claim C2.  A run in which the bookings update succeeds and the driver_trips update
  fails: the booking is left \<open>assigned\<close> to the trip while the trip row is untouched.
\<close>
theorem match_is_not_atomic:
  "(let (out, st', w') = handleAssignRequest trip_write_fails (Some ''d1'') ''r1'' ''t1'' 2
                            (driver1, world1)
    in map_option status (booking_row world1 ''r1'') = Some Pending \<and>
       out = Alert_trip_error Remote_failure \<and>
       requests w' = [Update_bookings ''r1'', Update_driver_trips ''t1''] \<and>
       map_option status (booking_row w' ''r1'') = Some Assigned \<and>
       map_option driver_trip_id (booking_row w' ''r1'') = Some (Some ''t1'') \<and>
       map_option booked_seats (trip_row world1 ''t1'') = Some 0 \<and>
       trip_row w' ''t1'' = trip_row world1 ''t1'')
   \<and>
   (let (out, st', w') = handleMatchRequest trip_write_fails utc ''r1'' ''t1'' (Some 2)
                            (admin1, world1)
    in out = Alert_trip_error Remote_failure \<and>
       requests w' = [Update_bookings ''r1'', Update_driver_trips ''t1''] \<and>
       map_option status (booking_row w' ''r1'') = Some Assigned \<and>
       map_option driver_trip_id (booking_row w' ''r1'') = Some (Some ''t1'') \<and>
       trip_row w' ''t1'' = trip_row world1 ''t1'')"
  by (simp add: remote_defs client_defs example_defs Let_def)

text \<open>
  The requests of a successful match on the example data begin with the bookings update;
  no read of the trip precedes it, and they are not the three calls
  read trip, update booking, update trip.
\<close>
theorem read_trip_first_counterexample:
  "requests (snd (snd (handleAssignRequest no_faults (Some ''d1'') ''r1'' ''t1'' 2
       (driver1, world1))))
     = [Update_bookings ''r1'', Update_driver_trips ''t1'',
        Select_bookings, Select_driver_trips, Select_bookings]
   \<and> requests (snd (snd (handleAssignRequest no_faults (Some ''d1'') ''r1'' ''t1'' 2
       (driver1, world1))))
     \<noteq> [Select_driver_trips, Update_bookings ''r1'', Update_driver_trips ''t1'']
   \<and> requests (snd (snd (handleMatchRequest no_faults utc ''r1'' ''t1'' (Some 2)
       (admin1, world1))))
     = [Update_bookings ''r1'', Update_driver_trips ''t1'',
        Select_bookings, Select_driver_trips, Select_profiles]
   \<and> requests (snd (snd (handleMatchRequest no_faults utc ''r1'' ''t1'' (Some 2)
       (admin1, world1))))
     \<noteq> [Select_driver_trips, Update_bookings ''r1'', Update_driver_trips ''t1'']"
  by (simp add: driver_run1 admin_run1)

text \<open>
  Claim C7.  The same match performed twice, the re-fetch of the pending requests having
  failed in between while the trips were fetched again: the second run finds the request
  still in the component's list, although its row is already \<open>assigned\<close>, and adds the
  seats a second time.
\<close>
theorem match_is_not_idempotent:
  "(let once = handleAssignRequest pending_refetch_fails (Some ''d1'') ''r1'' ''t1'' 2
                 (driver1, world1);
        twice = handleAssignRequest pending_refetch_fails (Some ''d1'') ''r1'' ''t1'' 2
                 (snd once)
    in fst once = Done \<and> fst twice = Done \<and>
       map_option status (booking_row (snd (snd once)) ''r1'') = Some Assigned \<and>
       map_option driver_trip_id (booking_row (snd (snd once)) ''r1'') = Some (Some ''t1'') \<and>
       map_option booked_seats (trip_row world1 ''t1'') = Some 0 \<and>
       map_option booked_seats (trip_row (snd (snd once)) ''t1'') = Some 2 \<and>
       map_option booked_seats (trip_row (snd (snd twice)) ''t1'') = Some 4 \<and>
       trip_row (snd (snd twice)) ''t1'' \<noteq> trip_row (snd (snd once)) ''t1'')
   \<and>
   (let once = handleMatchRequest bookings_refetch_fails utc ''r1'' ''t1'' (Some 2)
                 (admin1, world1);
        twice = handleMatchRequest bookings_refetch_fails utc ''r1'' ''t1'' (Some 2)
                 (snd once)
    in fst once = Done \<and> fst twice = Done \<and>
       map_option status (booking_row (snd (snd once)) ''r1'') = Some Assigned \<and>
       map_option driver_trip_id (booking_row (snd (snd once)) ''r1'') = Some (Some ''t1'') \<and>
       map_option booked_seats (trip_row (snd (snd once)) ''t1'') = Some 2 \<and>
       map_option booked_seats (trip_row (snd (snd twice)) ''t1'') = Some 4 \<and>
       trip_row (snd (snd twice)) ''t1'' \<noteq> trip_row (snd (snd once)) ''t1'')"
  by (simp add: remote_defs client_defs example_defs Let_def)

text \<open>
  Two runs beside it.  When the re-fetches succeed, the request has left the component's
  list and the second call returns without sending anything.  When the second call starts
  from the same component state as the first, it writes the same value into the trip row
  again: what is written is the copy's \<open>booked_seats\<close> plus the seats, not an increment of
  the row.
\<close>

lemma second_match_after_refetch:
  "(let once = handleAssignRequest no_faults (Some ''d1'') ''r1'' ''t1'' 2 (driver1, world1);
        twice = handleAssignRequest no_faults (Some ''d1'') ''r1'' ''t1'' 2 (snd once)
    in fst once = Done \<and> fst twice = Returned \<and> snd twice = snd once)"
  by (simp add: remote_defs client_defs example_defs Let_def)

lemma second_match_from_same_state:
  "(let once = handleAssignRequest no_faults (Some ''d1'') ''r1'' ''t1'' 2 (driver1, world1);
        twice = handleAssignRequest no_faults (Some ''d1'') ''r1'' ''t1'' 2
                  (driver1, snd (snd once))
    in fst once = Done \<and> fst twice = Done \<and>
       trip_row (snd (snd twice)) ''t1'' = trip_row (snd (snd once)) ''t1'')"
  by (simp add: remote_defs client_defs example_defs Let_def)

lemma written_rows_assigned:
  assumes "b \<in> set (map (\<lambda>x. if booking_id x = rid
              then x\<lparr>driver_trip_id := Some tid, assigned_driver_id := a,
                     status := Assigned, seats_booked := s, price := p\<rparr> else x) xs)"
    and "booking_id b = rid"
  shows "status b = Assigned \<and> driver_trip_id b = Some tid"
proof -
  from assms(1) obtain x where x: "x \<in> set xs"
    and b: "b = (if booking_id x = rid
              then x\<lparr>driver_trip_id := Some tid, assigned_driver_id := a,
                     status := Assigned, seats_booked := s, price := p\<rparr> else x)"
    by auto
  show ?thesis
  proof (cases "booking_id x = rid")
    case True
    with b show ?thesis by simp
  next
    case False
    with b assms(2) show ?thesis by simp
  qed
qed

lemma handleAssignRequest_not_found:
  "find (\<lambda>r. booking_id r = rid) (pendingRequests st) = None \<or>
   find (\<lambda>t. trip_id t = tid) (myTrips st) = None \<Longrightarrow>
   handleAssignRequest fl user rid tid seats (st, w) = (Returned, st, w)"
  by (auto simp: handleAssignRequest_def split: option.splits)

lemma handleMatchRequest_not_found:
  "find (\<lambda>r. booking_id r = rid) (customRequests st) = None \<or>
   find (\<lambda>t. trip_id t = tid) (driverTrips st) = None \<Longrightarrow>
   handleMatchRequest fl tz rid tid seatsToAssign (st, w) = (Returned, st, w)"
  by (auto simp: handleMatchRequest_def split: option.splits)

lemma handleAssignRequest_requests:
  fixes fl user rid tid seats st w
  defines "R \<equiv> handleAssignRequest fl user rid tid seats (st, w)"
  shows "requests (snd (snd R)) = requests w @
        (case fst R of
           Alert_booking_error e \<Rightarrow> [Update_bookings rid]
         | Alert_trip_error e \<Rightarrow> [Update_bookings rid, Update_driver_trips tid]
         | Done \<Rightarrow> [Update_bookings rid, Update_driver_trips tid,
                    Select_bookings, Select_driver_trips, Select_bookings]
         | _ \<Rightarrow> [])"
  unfolding R_def
  by (auto simp: handleAssignRequest_def Let_def update_bookings_def update_driver_trips_def
          fetchBookings_world fetchMyTrips_world fetchPendingRequests_world
        split: if_splits option.splits prod.splits)

lemma handleMatchRequest_requests:
  fixes fl tz rid tid seatsToAssign st w
  defines "R \<equiv> handleMatchRequest fl tz rid tid seatsToAssign (st, w)"
  shows "requests (snd (snd R)) = requests w @
        (case fst R of
           Alert_booking_error e \<Rightarrow> [Update_bookings rid]
         | Alert_trip_error e \<Rightarrow> [Update_bookings rid, Update_driver_trips tid]
         | Done \<Rightarrow> [Update_bookings rid, Update_driver_trips tid,
                    Select_bookings, Select_driver_trips, Select_profiles]
         | _ \<Rightarrow> [])"
  unfolding R_def
  by (auto simp: handleMatchRequest_def Let_def update_bookings_def update_driver_trips_def
          fetchData_world
        split: if_splits option.splits prod.splits)

lemma handleAssignRequest_booking_error:
  "fst (handleAssignRequest fl user rid tid seats (st, w)) = Alert_booking_error e \<Longrightarrow>
   bookings (snd (snd (handleAssignRequest fl user rid tid seats (st, w)))) = bookings w \<and>
   driver_trips (snd (snd (handleAssignRequest fl user rid tid seats (st, w)))) = driver_trips w"
  by (auto simp: handleAssignRequest_def Let_def update_bookings_def update_driver_trips_def
        split: if_splits option.splits prod.splits)

lemma handleMatchRequest_booking_error:
  "fst (handleMatchRequest fl tz rid tid seatsToAssign (st, w)) = Alert_booking_error e \<Longrightarrow>
   bookings (snd (snd (handleMatchRequest fl tz rid tid seatsToAssign (st, w)))) = bookings w \<and>
   driver_trips (snd (snd (handleMatchRequest fl tz rid tid seatsToAssign (st, w)))) = driver_trips w"
  by (auto simp: handleMatchRequest_def Let_def update_bookings_def update_driver_trips_def
        split: if_splits option.splits prod.splits)

lemma sent_trip_update:
  assumes "Update_driver_trips tid \<in> set
     (case out of
           Alert_booking_error e \<Rightarrow> [Update_bookings rid]
         | Alert_trip_error e \<Rightarrow> [Update_bookings rid, Update_driver_trips tid]
         | Done \<Rightarrow> [Update_bookings rid, Update_driver_trips tid, x, y, z]
         | _ \<Rightarrow> [])"
  shows "out = Done \<or> (\<exists>e. out = Alert_trip_error e)"
  using assms by (cases out) auto

lemma handleAssignRequest_trip_update_sent:
  fixes fl user rid tid seats st w
  defines "R \<equiv> handleAssignRequest fl user rid tid seats (st, w)"
  assumes sent: "Update_driver_trips tid \<in> set (drop (length (requests w)) (requests (snd (snd R))))"
  shows "\<not> bookings_write_fails fl"
    and "\<forall>b\<in>set (bookings (snd (snd R))). booking_id b = rid \<longrightarrow>
           status b = Assigned \<and> driver_trip_id b = Some tid"
proof -
  from sent have out: "fst R = Done \<or> (\<exists>e. fst R = Alert_trip_error e)"
    unfolding R_def handleAssignRequest_requests by (simp add: sent_trip_update)
  then have nr: "fst R \<noteq> Returned" by auto
  from nr obtain uid where user: "user = Some uid"
    unfolding R_def by (cases user) (auto simp: handleAssignRequest_def)
  from nr obtain request trip
    where req: "find (\<lambda>r. booking_id r = rid) (pendingRequests st) = Some request"
      and trp: "find (\<lambda>t. trip_id t = tid) (myTrips st) = Some trip"
    unfolding R_def using handleAssignRequest_not_found [of rid st tid fl user seats w]
    by (cases "find (\<lambda>r. booking_id r = rid) (pendingRequests st)";
        cases "find (\<lambda>t. trip_id t = tid) (myTrips st)") auto
  note W = handleAssignRequest_written [OF req trp, of fl uid seats w]
  from W(6) out show "\<not> bookings_write_fails fl"
    unfolding R_def user by blast
  from W(1) out have eq: "bookings (snd (snd R)) = map (\<lambda>b. if booking_id b = rid
            then b\<lparr>driver_trip_id := Some tid, assigned_driver_id := Some uid,
                   status := Assigned, seats_booked := Some seats,
                   price := Some (of_int seats * price_per_seat trip)\<rparr> else b) (bookings w)"
    unfolding R_def user by blast
  show "\<forall>b\<in>set (bookings (snd (snd R))). booking_id b = rid \<longrightarrow>
           status b = Assigned \<and> driver_trip_id b = Some tid"
  proof (intro ballI impI)
    fix b
    assume m: "b \<in> set (bookings (snd (snd R)))" and i: "booking_id b = rid"
    from m have "b \<in> set (map (\<lambda>b. if booking_id b = rid
            then b\<lparr>driver_trip_id := Some tid, assigned_driver_id := Some uid,
                   status := Assigned, seats_booked := Some seats,
                   price := Some (of_int seats * price_per_seat trip)\<rparr> else b) (bookings w))"
      unfolding eq .
    from written_rows_assigned [OF this i]
    show "status b = Assigned \<and> driver_trip_id b = Some tid" .
  qed
qed

lemma handleMatchRequest_trip_update_sent:
  fixes fl tz rid tid seatsToAssign st w
  defines "R \<equiv> handleMatchRequest fl tz rid tid seatsToAssign (st, w)"
  assumes sent: "Update_driver_trips tid \<in> set (drop (length (requests w)) (requests (snd (snd R))))"
  shows "\<not> bookings_write_fails fl"
    and "\<forall>b\<in>set (bookings (snd (snd R))). booking_id b = rid \<longrightarrow>
           status b = Assigned \<and> driver_trip_id b = Some tid"
proof -
  from sent have out: "fst R = Done \<or> (\<exists>e. fst R = Alert_trip_error e)"
    unfolding R_def handleMatchRequest_requests by (simp add: sent_trip_update)
  then have nr: "fst R \<noteq> Returned" by auto
  from nr obtain request trip
    where req: "find (\<lambda>r. booking_id r = rid) (customRequests st) = Some request"
      and trp: "find (\<lambda>t. trip_id t = tid) (driverTrips st) = Some trip"
    unfolding R_def using handleMatchRequest_not_found [of rid st tid fl tz seatsToAssign w]
    by (cases "find (\<lambda>r. booking_id r = rid) (customRequests st)";
        cases "find (\<lambda>t. trip_id t = tid) (driverTrips st)") auto
  note W = handleMatchRequest_written [OF req trp, of fl tz seatsToAssign w]
  let ?s = "matchSeats st rid tid seatsToAssign request"
  from W(6) out show "\<not> bookings_write_fails fl"
    unfolding R_def by blast
  from W(1) out have eq: "bookings (snd (snd R)) = map (\<lambda>b. if booking_id b = rid
            then b\<lparr>driver_trip_id := Some tid, assigned_driver_id := Some (driver_id trip),
                   status := Assigned, seats_booked := Some ?s,
                   price := Some (of_int ?s * price_per_seat trip)\<rparr> else b) (bookings w)"
    unfolding R_def by blast
  show "\<forall>b\<in>set (bookings (snd (snd R))). booking_id b = rid \<longrightarrow>
           status b = Assigned \<and> driver_trip_id b = Some tid"
  proof (intro ballI impI)
    fix b
    assume m: "b \<in> set (bookings (snd (snd R)))" and i: "booking_id b = rid"
    from m have "b \<in> set (map (\<lambda>b. if booking_id b = rid
            then b\<lparr>driver_trip_id := Some tid, assigned_driver_id := Some (driver_id trip),
                   status := Assigned, seats_booked := Some ?s,
                   price := Some (of_int ?s * price_per_seat trip)\<rparr> else b) (bookings w))"
      unfolding eq .
    from written_rows_assigned [OF this i]
    show "status b = Assigned \<and> driver_trip_id b = Some tid" .
  qed
qed

text \<open>
  Claim C3, amended.  A match sends no request to read the trip.  It sends the
  bookings update, then, only if that returned no error, the driver_trips update, each
  at most once, and after a success the re-fetches; nothing is undone when a call fails.
\<close>
theorem match_request_sequence:
  "(handleAssignRequest fl user rid tid seats (st, w) = (out, st', w') \<longrightarrow>
      requests w' = requests w @
        (case out of
           Alert_booking_error e \<Rightarrow> [Update_bookings rid]
         | Alert_trip_error e \<Rightarrow> [Update_bookings rid, Update_driver_trips tid]
         | Done \<Rightarrow> [Update_bookings rid, Update_driver_trips tid,
                    Select_bookings, Select_driver_trips, Select_bookings]
         | _ \<Rightarrow> [])
      \<and> (Update_driver_trips tid \<in> set (drop (length (requests w)) (requests w')) \<longrightarrow>
           \<not> bookings_write_fails fl \<and>
           (\<forall>b\<in>set (bookings w'). booking_id b = rid \<longrightarrow>
               status b = Assigned \<and> driver_trip_id b = Some tid))
      \<and> (\<forall>e. out = Alert_booking_error e \<longrightarrow>
           bookings w' = bookings w \<and> driver_trips w' = driver_trips w))
   \<and>
   (handleMatchRequest fl tz rid tid seatsToAssign (ast, w) = (out, ast', w') \<longrightarrow>
      requests w' = requests w @
        (case out of
           Alert_booking_error e \<Rightarrow> [Update_bookings rid]
         | Alert_trip_error e \<Rightarrow> [Update_bookings rid, Update_driver_trips tid]
         | Done \<Rightarrow> [Update_bookings rid, Update_driver_trips tid,
                    Select_bookings, Select_driver_trips, Select_profiles]
         | _ \<Rightarrow> [])
      \<and> (Update_driver_trips tid \<in> set (drop (length (requests w)) (requests w')) \<longrightarrow>
           \<not> bookings_write_fails fl \<and>
           (\<forall>b\<in>set (bookings w'). booking_id b = rid \<longrightarrow>
               status b = Assigned \<and> driver_trip_id b = Some tid))
      \<and> (\<forall>e. out = Alert_booking_error e \<longrightarrow>
           bookings w' = bookings w \<and> driver_trips w' = driver_trips w))"
proof (rule conjI; rule impI)
  assume run: "handleAssignRequest fl user rid tid seats (st, w) = (out, st', w')"
  have a: "requests w' = requests w @
        (case out of
           Alert_booking_error e \<Rightarrow> [Update_bookings rid]
         | Alert_trip_error e \<Rightarrow> [Update_bookings rid, Update_driver_trips tid]
         | Done \<Rightarrow> [Update_bookings rid, Update_driver_trips tid,
                    Select_bookings, Select_driver_trips, Select_bookings]
         | _ \<Rightarrow> [])"
    using handleAssignRequest_requests [of fl user rid tid seats st w] by (simp add: run)
  have b: "\<not> bookings_write_fails fl \<and>
           (\<forall>b\<in>set (bookings w'). booking_id b = rid \<longrightarrow>
               status b = Assigned \<and> driver_trip_id b = Some tid)"
    if "Update_driver_trips tid \<in> set (drop (length (requests w)) (requests w'))"
    using handleAssignRequest_trip_update_sent [of tid w fl user rid seats st] that
    by (simp add: run)
  have c: "bookings w' = bookings w \<and> driver_trips w' = driver_trips w"
    if "out = Alert_booking_error e" for e
    using handleAssignRequest_booking_error [of fl user rid tid seats st w e] that
    by (simp add: run)
  from a b c show "requests w' = requests w @
        (case out of
           Alert_booking_error e \<Rightarrow> [Update_bookings rid]
         | Alert_trip_error e \<Rightarrow> [Update_bookings rid, Update_driver_trips tid]
         | Done \<Rightarrow> [Update_bookings rid, Update_driver_trips tid,
                    Select_bookings, Select_driver_trips, Select_bookings]
         | _ \<Rightarrow> [])
      \<and> (Update_driver_trips tid \<in> set (drop (length (requests w)) (requests w')) \<longrightarrow>
           \<not> bookings_write_fails fl \<and>
           (\<forall>b\<in>set (bookings w'). booking_id b = rid \<longrightarrow>
               status b = Assigned \<and> driver_trip_id b = Some tid))
      \<and> (\<forall>e. out = Alert_booking_error e \<longrightarrow>
           bookings w' = bookings w \<and> driver_trips w' = driver_trips w)"
    by blast
next
  assume run: "handleMatchRequest fl tz rid tid seatsToAssign (ast, w) = (out, ast', w')"
  have a: "requests w' = requests w @
        (case out of
           Alert_booking_error e \<Rightarrow> [Update_bookings rid]
         | Alert_trip_error e \<Rightarrow> [Update_bookings rid, Update_driver_trips tid]
         | Done \<Rightarrow> [Update_bookings rid, Update_driver_trips tid,
                    Select_bookings, Select_driver_trips, Select_profiles]
         | _ \<Rightarrow> [])"
    using handleMatchRequest_requests [of fl tz rid tid seatsToAssign ast w] by (simp add: run)
  have b: "\<not> bookings_write_fails fl \<and>
           (\<forall>b\<in>set (bookings w'). booking_id b = rid \<longrightarrow>
               status b = Assigned \<and> driver_trip_id b = Some tid)"
    if "Update_driver_trips tid \<in> set (drop (length (requests w)) (requests w'))"
    using handleMatchRequest_trip_update_sent [of tid w fl tz rid seatsToAssign ast] that
    by (simp add: run)
  have c: "bookings w' = bookings w \<and> driver_trips w' = driver_trips w"
    if "out = Alert_booking_error e" for e
    using handleMatchRequest_booking_error [of fl tz rid tid seatsToAssign ast w e] that
    by (simp add: run)
  from a b c show "requests w' = requests w @
        (case out of
           Alert_booking_error e \<Rightarrow> [Update_bookings rid]
         | Alert_trip_error e \<Rightarrow> [Update_bookings rid, Update_driver_trips tid]
         | Done \<Rightarrow> [Update_bookings rid, Update_driver_trips tid,
                    Select_bookings, Select_driver_trips, Select_profiles]
         | _ \<Rightarrow> [])
      \<and> (Update_driver_trips tid \<in> set (drop (length (requests w)) (requests w')) \<longrightarrow>
           \<not> bookings_write_fails fl \<and>
           (\<forall>b\<in>set (bookings w'). booking_id b = rid \<longrightarrow>
               status b = Assigned \<and> driver_trip_id b = Some tid))
      \<and> (\<forall>e. out = Alert_booking_error e \<longrightarrow>
           bookings w' = bookings w \<and> driver_trips w' = driver_trips w)"
    by blast
qed

text \<open>A run that stops at the trip update, and a run that succeeds.\<close>
theorem match_request_sequence_witness:
  "requests (snd (snd (handleAssignRequest trip_write_fails (Some ''d1'') ''r1'' ''t1'' 2
       (driver1, world1))))
     = requests world1 @ [Update_bookings ''r1'', Update_driver_trips ''t1'']
   \<and> requests (snd (snd (handleMatchRequest no_faults utc ''r1'' ''t1'' (Some 2)
       (admin1, world1))))
     = requests world1 @ [Update_bookings ''r1'', Update_driver_trips ''t1'',
                          Select_bookings, Select_driver_trips, Select_profiles]"
proof -
  let ?D = "handleAssignRequest trip_write_fails (Some ''d1'') ''r1'' ''t1'' 2 (driver1, world1)"
  let ?A = "handleMatchRequest no_faults utc ''r1'' ''t1'' (Some 2) (admin1, world1)"
  have od: "fst ?D = Alert_trip_error Remote_failure"
    by (simp add: remote_defs client_defs example_defs Let_def)
  have d: "requests (snd (snd ?D))
             = requests world1 @ [Update_bookings ''r1'', Update_driver_trips ''t1'']"
    using match_request_sequence [where fl = trip_write_fails and user = "Some ''d1''"
          and rid = "''r1''" and tid = "''t1''" and seats = 2 and st = driver1 and w = world1
          and out = "fst ?D" and st' = "fst (snd ?D)" and w' = "snd (snd ?D)", THEN conjunct1]
    by (simp add: od prod_eq_iff)
  have a: "requests (snd (snd ?A))
             = requests world1 @ [Update_bookings ''r1'', Update_driver_trips ''t1'',
                                  Select_bookings, Select_driver_trips, Select_profiles]"
    using match_request_sequence [where fl = no_faults and tz = utc and rid = "''r1''"
          and tid = "''t1''" and seatsToAssign = "Some 2" and ast = admin1 and w = world1
          and out = "fst ?A" and ast' = "fst (snd ?A)" and w' = "snd (snd ?A)", THEN conjunct2]
    by (simp add: admin_run1)
  from d a show ?thesis by simp
qed

lemma seats_invariant_fetch:
  "seats_invariant (snd (fetchBookings f u sw)) = seats_invariant (snd sw)"
  "seats_invariant (snd (fetchMyTrips f u sw)) = seats_invariant (snd sw)"
  "seats_invariant (snd (fetchPendingRequests f u sw)) = seats_invariant (snd sw)"
  "seats_invariant (snd (fetchData fl tz asw)) = seats_invariant (snd asw)"
  by (simp_all add: seats_invariant_def fetchBookings_world fetchMyTrips_world
        fetchPendingRequests_world fetchData_world)

lemma update_bookings_invariant:
  "seats_invariant (snd (update_bookings fails rid upd w)) = seats_invariant w"
  by (simp add: update_bookings_def Let_def seats_invariant_def)

lemma update_driver_trips_invariant:
  assumes "seats_invariant w"
  shows "seats_invariant (snd (update_driver_trips fails tid upd w))"
  using assms
  by (auto simp: update_driver_trips_def Let_def seats_invariant_def trip_checks_def
        list_all_iff)

lemma insert_driver_trips_invariant:
  assumes "seats_invariant w"
  shows "seats_invariant (snd (insert_driver_trips fails new_id uid v w))"
  using assms
  by (auto simp: insert_driver_trips_def Let_def seats_invariant_def trip_checks_def
        list_all_iff split: option.splits)

lemma delete_driver_trips_invariant:
  assumes "seats_invariant w"
  shows "seats_invariant (snd (delete_driver_trips fails tid w))"
  using assms
  by (auto simp: delete_driver_trips_def Let_def seats_invariant_def list_all_iff)

lemmas invariant_steps = seats_invariant_fetch update_bookings_invariant
  update_driver_trips_invariant insert_driver_trips_invariant delete_driver_trips_invariant

lemma handleCreateTrip_invariant:
  "seats_invariant w \<Longrightarrow>
   seats_invariant (snd (snd (handleCreateTrip fl user new_id newTrip (st, w))))"
  by (simp add: handleCreateTrip_def Let_def split_beta invariant_steps split: option.splits)

lemma handleUpdateTrip_invariant:
  "seats_invariant w \<Longrightarrow>
   seats_invariant (snd (snd (handleUpdateTrip fl user tid updates (st, w))))"
  by (simp add: handleUpdateTrip_def Let_def split_beta invariant_steps split: option.splits)

lemma handleDeleteTrip_invariant:
  "seats_invariant w \<Longrightarrow>
   seats_invariant (snd (snd (handleDeleteTrip fl user confirmed tid (st, w))))"
  by (simp add: handleDeleteTrip_def Let_def split_beta invariant_steps split: option.splits)

lemma handleUpdateTripPrice_invariant:
  "seats_invariant w \<Longrightarrow>
   seats_invariant (snd (snd (handleUpdateTripPrice fl tz tid field val (ast, w))))"
  by (simp add: handleUpdateTripPrice_def Let_def split_beta invariant_steps
        split: option.splits)

lemma handleAssignRequest_invariant:
  "seats_invariant w \<Longrightarrow>
   seats_invariant (snd (snd (handleAssignRequest fl user rid tid seats (st, w))))"
  by (simp add: handleAssignRequest_def Let_def split_beta invariant_steps
        split: option.splits)

lemma handleMatchRequest_invariant:
  "seats_invariant w \<Longrightarrow>
   seats_invariant (snd (snd (handleMatchRequest fl tz rid tid seatsToAssign (ast, w))))"
  by (simp add: handleMatchRequest_def Let_def split_beta invariant_steps
        split: option.splits)

text \<open>
  Claim C9.  The seat invariant holds of an empty table and is kept by every handler
  that inserts, updates or deletes a trip, whatever the outcome of its calls; under it no
  trip has a negative number of remaining seats.
\<close>
theorem seats_invariant_preserved:
  "seats_invariant \<lparr>bookings = bs, driver_trips = [], requests = rs\<rparr> \<and>
   (seats_invariant w \<longrightarrow>
      seats_invariant (snd (snd (handleCreateTrip fl user new_id newTrip (st, w)))) \<and>
      seats_invariant (snd (snd (handleUpdateTrip fl user tid updates (st, w)))) \<and>
      seats_invariant (snd (snd (handleDeleteTrip fl user confirmed tid (st, w)))) \<and>
      seats_invariant (snd (snd (handleAssignRequest fl user rid tid seats (st, w)))) \<and>
      seats_invariant (snd (snd (handleUpdateTripPrice fl tz tid field val (ast, w)))) \<and>
      seats_invariant (snd (snd (handleMatchRequest fl tz rid tid seatsToAssign (ast, w)))) \<and>
      (\<forall>t\<in>set (driver_trips w).
          0 \<le> booked_seats t \<and> booked_seats t \<le> available_seats t \<and>
          available_seats t > 0 \<and> 0 \<le> available_seats t - booked_seats t))"
proof (intro conjI impI)
  show "seats_invariant \<lparr>bookings = bs, driver_trips = [], requests = rs\<rparr>"
    by (simp add: seats_invariant_def)
next
  assume inv: "seats_invariant w"
  then show "\<forall>t\<in>set (driver_trips w).
          0 \<le> booked_seats t \<and> booked_seats t \<le> available_seats t \<and>
          available_seats t > 0 \<and> 0 \<le> available_seats t - booked_seats t"
    by (auto simp: seats_invariant_def list_all_iff)
qed (simp_all add: handleCreateTrip_invariant handleUpdateTrip_invariant
       handleDeleteTrip_invariant handleAssignRequest_invariant
       handleUpdateTripPrice_invariant handleMatchRequest_invariant)

text \<open>
  On the example data; an assignment of a negative seat count passes the guards of the
  handler and is stopped by the check constraints.
\<close>
theorem seats_invariant_preserved_witness:
  "seats_invariant world1 \<and>
   fst (handleAssignRequest no_faults (Some ''d1'') ''r1'' ''t1'' (- 1) (driver1, world1))
     = Alert_trip_error Check_violation \<and>
   seats_invariant
     (snd (snd (handleAssignRequest no_faults (Some ''d1'') ''r1'' ''t1'' (- 1)
        (driver1, world1)))) \<and>
   seats_invariant
     (snd (snd (handleMatchRequest no_faults utc ''r1'' ''t1'' (Some 2) (admin1, world1)))) \<and>
   0 \<le> available_seats trip1 - booked_seats trip1"
proof -
  have i: "seats_invariant world1"
    by (simp add: seats_invariant_def example_defs)
  have o: "fst (handleAssignRequest no_faults (Some ''d1'') ''r1'' ''t1'' (- 1) (driver1, world1))
     = Alert_trip_error Check_violation"
    by (simp add: remote_defs client_defs example_defs Let_def)
  have m: "trip1 \<in> set (driver_trips world1)"
    by (simp add: world1_def)
  from seats_invariant_preserved [where w = world1 and fl = no_faults and user = "Some ''d1''"
      and rid = "''r1''" and tid = "''t1''" and seats = "- 1" and st = driver1
      and tz = utc and seatsToAssign = "Some 2" and ast = admin1] i o m
  show ?thesis by blast
qed





text \<open>
  Claim C10.  The trips the driver is offered for a request are the driver's own
  scheduled trips on the request's route with a free seat and a departure not before the
  requested time; the admin is offered every listed scheduled trip that departs not
  before the requested time.  On the example data the admin is offered, and can match, a
  trip on another route, which the driver's list leaves out.
\<close>
theorem candidate_trip_lists:
  "(t \<in> set (matchingTrips st request) \<longleftrightarrow>
      t \<in> set (myTrips st) \<and> trip_status t = Scheduled \<and>
      origin t = pickup_location request \<and> destination t = dropoff_location request \<and>
      available_seats t - booked_seats t > 0 \<and>
      departure_time t \<ge> scheduled_time request)
   \<and>
   (t \<in> set (matchingTrips (fst (fetchMyTrips False (Some uid) (st, w))) request) \<longleftrightarrow>
      t \<in> set (driver_trips w) \<and> driver_id t = uid \<and> trip_status t = Scheduled \<and>
      origin t = pickup_location request \<and> destination t = dropoff_location request \<and>
      available_seats t - booked_seats t > 0 \<and>
      departure_time t \<ge> scheduled_time request)
   \<and>
   (t \<in> set (matchWithTrips ast request) \<longleftrightarrow>
      t \<in> set (driverTrips ast) \<and> trip_status t = Scheduled \<and>
      departure_time t \<ge> scheduled_time request)
   \<and>
   (trip2 \<in> set (matchWithTrips admin1 request1) \<and>
    trip2 \<in> set (myTrips driver1) \<and>
    trip2 \<notin> set (matchingTrips driver1 request1) \<and>
    origin trip2 \<noteq> pickup_location request1 \<and>
    destination trip2 \<noteq> dropoff_location request1 \<and>
    fst (handleMatchRequest no_faults utc ''r1'' ''t2'' (Some 2) (admin1, world1)) = Done \<and>
    map_option driver_trip_id
      (booking_row (snd (snd (handleMatchRequest no_faults utc ''r1'' ''t2'' (Some 2)
          (admin1, world1)))) ''r1'') = Some (Some (trip_id trip2)))"
proof (intro conjI)
  show "t \<in> set (matchingTrips st request) \<longleftrightarrow>
      t \<in> set (myTrips st) \<and> trip_status t = Scheduled \<and>
      origin t = pickup_location request \<and> destination t = dropoff_location request \<and>
      available_seats t - booked_seats t > 0 \<and>
      departure_time t \<ge> scheduled_time request"
    by (auto simp: matchingTrips_def)
  show "t \<in> set (matchingTrips (fst (fetchMyTrips False (Some uid) (st, w))) request) \<longleftrightarrow>
      t \<in> set (driver_trips w) \<and> driver_id t = uid \<and> trip_status t = Scheduled \<and>
      origin t = pickup_location request \<and> destination t = dropoff_location request \<and>
      available_seats t - booked_seats t > 0 \<and>
      departure_time t \<ge> scheduled_time request"
    by (auto simp: matchingTrips_def fetchMyTrips_def select_driver_trips_def Let_def)
  show "t \<in> set (matchWithTrips ast request) \<longleftrightarrow>
      t \<in> set (driverTrips ast) \<and> trip_status t = Scheduled \<and>
      departure_time t \<ge> scheduled_time request"
    by (auto simp: matchWithTrips_def)
qed (simp_all add: matchWithTrips_def matchingTrips_def remote_defs client_defs example_defs
       Let_def)

text \<open>The two example trips against the example request.\<close>
theorem candidate_trip_lists_witness:
  "trip1 \<in> set (matchingTrips (fst (fetchMyTrips False (Some ''d1'') (driver1, world1))) request1)
   \<and> trip2 \<notin> set (matchingTrips (fst (fetchMyTrips False (Some ''d1'') (driver1, world1)))
                    request1)
   \<and> trip2 \<in> set (matchWithTrips admin1 request1)"
proof -
  have f: "trip1 \<in> set (driver_trips world1)" "driver_id trip1 = ''d1''"
      "trip_status trip1 = Scheduled" "origin trip1 = pickup_location request1"
      "destination trip1 = dropoff_location request1"
      "available_seats trip1 - booked_seats trip1 > 0"
      "departure_time trip1 \<ge> scheduled_time request1"
      "origin trip2 \<noteq> pickup_location request1"
      "trip2 \<in> set (driverTrips admin1)" "trip_status trip2 = Scheduled"
      "departure_time trip2 \<ge> scheduled_time request1"
    by (simp_all add: example_defs)
  from candidate_trip_lists [where t = trip1 and uid = "''d1''" and st = driver1
      and w = world1 and request = request1 and ast = admin1] f
  have 1: "trip1 \<in> set (matchingTrips (fst (fetchMyTrips False (Some ''d1'') (driver1, world1)))
             request1)"
    by blast
  from candidate_trip_lists [where t = trip2 and uid = "''d1''" and st = driver1
      and w = world1 and request = request1 and ast = admin1] f
  have 2: "trip2 \<notin> set (matchingTrips (fst (fetchMyTrips False (Some ''d1'') (driver1, world1)))
             request1)"
    and 3: "trip2 \<in> set (matchWithTrips admin1 request1)"
    by blast+
  from 1 2 3 show ?thesis by blast
qed

end
